theory Spec2Isabelle
  imports Complex_Main
begin

section \<open>JavaScript numbers\<close>

text \<open>
  A JavaScript number is modelled as a real number or one of the three special values
  of IEEE 754. Arithmetic on finite values is exact real arithmetic: rounding, overflow
  to an infinity and the sign of zero are not modelled (zero is the positive zero).
  What is modelled is where the special values come from and how they behave: a division
  by zero gives an infinity or \<open>NaN\<close>, every comparison with \<open>NaN\<close> is false, and
  \<open>Math.max\<close>/\<open>Math.min\<close> return \<open>NaN\<close> when an argument is \<open>NaN\<close>.
\<close>

datatype jsnum = Num real | PosInf | NegInf | NaN

fun js_neg :: "jsnum \<Rightarrow> jsnum" where
  "js_neg (Num a) = Num (- a)"
| "js_neg PosInf = NegInf"
| "js_neg NegInf = PosInf"
| "js_neg NaN = NaN"

fun js_add :: "jsnum \<Rightarrow> jsnum \<Rightarrow> jsnum" where
  "js_add (Num a) (Num b) = Num (a + b)"
| "js_add NaN _ = NaN"
| "js_add _ NaN = NaN"
| "js_add PosInf NegInf = NaN"
| "js_add NegInf PosInf = NaN"
| "js_add PosInf _ = PosInf"
| "js_add _ PosInf = PosInf"
| "js_add NegInf _ = NegInf"
| "js_add _ NegInf = NegInf"

definition js_sub :: "jsnum \<Rightarrow> jsnum \<Rightarrow> jsnum" where
  "js_sub a b = js_add a (js_neg b)"

text \<open>The sign of a number that is not \<open>NaN\<close>: \<open>-1\<close>, \<open>0\<close> or \<open>1\<close>.\<close>

fun js_sign :: "jsnum \<Rightarrow> int" where
  "js_sign (Num a) = (if a < 0 then - 1 else if a = 0 then 0 else 1)"
| "js_sign PosInf = 1"
| "js_sign NegInf = - 1"
| "js_sign NaN = 0"

fun js_mul :: "jsnum \<Rightarrow> jsnum \<Rightarrow> jsnum" where
  "js_mul (Num a) (Num b) = Num (a * b)"
| "js_mul NaN _ = NaN"
| "js_mul _ NaN = NaN"
| "js_mul a b =
     (if js_sign a * js_sign b = 0 then NaN
      else if js_sign a * js_sign b > 0 then PosInf else NegInf)"

fun js_div :: "jsnum \<Rightarrow> jsnum \<Rightarrow> jsnum" where
  "js_div (Num a) (Num b) =
     (if b \<noteq> 0 then Num (a / b)
      else if a = 0 then NaN
      else if a > 0 then PosInf else NegInf)"
| "js_div NaN _ = NaN"
| "js_div _ NaN = NaN"
| "js_div (Num a) _ = Num 0"
| "js_div a (Num b) = (if b \<ge> 0 then a else js_neg a)"
| "js_div _ _ = NaN"

text \<open>\<open>Math.pow\<close> with a natural exponent, as repeated multiplication.\<close>

primrec js_pow :: "jsnum \<Rightarrow> nat \<Rightarrow> jsnum" where
  "js_pow a 0 = Num 1"
| "js_pow a (Suc n) = js_mul a (js_pow a n)"

fun js_lt :: "jsnum \<Rightarrow> jsnum \<Rightarrow> bool" where
  "js_lt (Num a) (Num b) = (a < b)"
| "js_lt NaN _ = False"
| "js_lt _ NaN = False"
| "js_lt _ NegInf = False"
| "js_lt PosInf _ = False"
| "js_lt _ _ = True"

fun js_le :: "jsnum \<Rightarrow> jsnum \<Rightarrow> bool" where
  "js_le (Num a) (Num b) = (a \<le> b)"
| "js_le NaN _ = False"
| "js_le _ NaN = False"
| "js_le NegInf _ = True"
| "js_le _ PosInf = True"
| "js_le _ _ = False"

definition js_gt :: "jsnum \<Rightarrow> jsnum \<Rightarrow> bool" where
  "js_gt a b = js_lt b a"

definition js_ge :: "jsnum \<Rightarrow> jsnum \<Rightarrow> bool" where
  "js_ge a b = js_le b a"

fun js_max :: "jsnum \<Rightarrow> jsnum \<Rightarrow> jsnum" where
  "js_max NaN _ = NaN"
| "js_max _ NaN = NaN"
| "js_max a b = (if js_lt a b then b else a)"

fun js_min :: "jsnum \<Rightarrow> jsnum \<Rightarrow> jsnum" where
  "js_min NaN _ = NaN"
| "js_min _ NaN = NaN"
| "js_min a b = (if js_lt b a then b else a)"

text \<open>Truthiness of a number, as \<open>||\<close> tests it: \<open>0\<close> and \<open>NaN\<close> are falsy.\<close>

fun js_truthy :: "jsnum \<Rightarrow> bool" where
  "js_truthy (Num a) = (a \<noteq> 0)"
| "js_truthy NaN = False"
| "js_truthy _ = True"

section \<open>The effect processor\<close>

subsection \<open>Coordinate normalisation and the auto-scale heuristic\<close>

text \<open>
  Bounds are read from the instruction file (JSON), whose numbers are finite: the fields
  are reals. The result of \<open>normalizeCoordinates\<close> spreads the bounds and adds the
  derived values, so it is an extension of the bounds record.
\<close>

record bounds =
  x :: real
  y :: real
  width :: real
  height :: real

record normalizedBounds = bounds +
  centerX :: jsnum
  centerY :: jsnum
  anchorX :: jsnum
  anchorY :: jsnum
  autoScale :: jsnum
  startScale :: jsnum
  endScale :: jsnum
  areaRatio :: jsnum
  widthRatio :: jsnum
  heightRatio :: jsnum
  dominantRatio :: jsnum
  effectiveRatio :: jsnum

text \<open>
  The tiers and the clamp of \<open>normalizeCoordinates\<close> (the statements that assign
  \<open>autoScale\<close>), as a function of the effective ratio.
\<close>

definition autoScaleOf :: "jsnum \<Rightarrow> jsnum" where
  "autoScaleOf r =
     (let s =
        (if js_lt r (Num 0.01) then
           js_add (Num 1.5) (js_mul (js_div (js_sub (Num 0.01) r) (Num 0.01)) (Num 0.5))
         else if js_lt r (Num 0.1) then
           js_add (Num 1.2) (js_mul (js_div (js_sub (Num 0.1) r) (Num 0.09)) (Num 0.3))
         else if js_lt r (Num 0.5) then
           js_add (Num 1.0) (js_mul (js_div (js_sub (Num 0.5) r) (Num 0.4)) (Num 0.2))
         else Num 1.0)
      in js_max (Num 1.0) (js_min (Num 2.5) s))"

definition normalizeCoordinates ::
  "bounds \<Rightarrow> jsnum \<Rightarrow> jsnum \<Rightarrow> jsnum \<Rightarrow> jsnum \<Rightarrow> normalizedBounds" where
  "normalizeCoordinates b recordingWidth recordingHeight videoWidth videoHeight =
     (let cX = js_add (Num (x b)) (js_div (Num (width b)) (Num 2));
          cY = js_add (Num (y b)) (js_div (Num (height b)) (Num 2));
          aX = js_div cX recordingWidth;
          aY = js_div cY recordingHeight;
          boundingBoxArea = js_mul (Num (width b)) (Num (height b));
          screenArea = js_mul recordingWidth recordingHeight;
          areaR = js_div boundingBoxArea screenArea;
          widthR = js_div (Num (width b)) recordingWidth;
          heightR = js_div (Num (height b)) recordingHeight;
          dominantR = js_max widthR heightR;
          effectiveR = js_max areaR dominantR;
          aS = autoScaleOf effectiveR
      in bounds.extend b
           \<lparr> centerX = cX, centerY = cY, anchorX = aX, anchorY = aY,
             autoScale = aS, startScale = Num 1.0, endScale = aS,
             areaRatio = areaR, widthRatio = widthR, heightRatio = heightR,
             dominantRatio = dominantR, effectiveRatio = effectiveR \<rparr>)"

subsection \<open>Easing and progress\<close>

definition easeInOutCubic :: "jsnum \<Rightarrow> jsnum" where
  "easeInOutCubic t =
     (if js_lt t (Num 0.5) then js_mul (js_mul (js_mul (Num 4) t) t) t
      else js_sub (Num 1)
             (js_div (js_pow (js_add (js_mul (Num (- 2)) t) (Num 2)) 3) (Num 2)))"

definition easeInOutQuad :: "jsnum \<Rightarrow> jsnum" where
  "easeInOutQuad t =
     (if js_lt t (Num 0.5) then js_mul (js_mul (Num 2) t) t
      else js_sub (Num 1)
             (js_div (js_pow (js_add (js_mul (Num (- 2)) t) (Num 2)) 2) (Num 2)))"

definition computeEffectProgress ::
  "jsnum \<Rightarrow> jsnum \<Rightarrow> jsnum \<Rightarrow> jsnum \<Rightarrow> jsnum \<Rightarrow> jsnum" where
  "computeEffectProgress currentTime start_t end_t easeInPercent easeOutPercent =
     (let duration = js_sub end_t start_t;
          t = js_div (js_sub currentTime start_t) duration
      in if js_le t (Num 0) then Num 0
         else if js_ge t (Num 1) then Num 0
         else
           (let easeInEnd = easeInPercent;
                easeOutStart = js_sub (Num 1) easeOutPercent
            in if js_lt t easeInEnd then easeInOutCubic (js_div t easeInEnd)
               else if js_gt t easeOutStart then
                 easeInOutCubic (js_div (js_sub (Num 1) t) easeOutPercent)
               else Num 1))"

text \<open>The call with the default ease fractions \<open>0.25\<close>.\<close>

definition computeEffectProgressDefault :: "jsnum \<Rightarrow> jsnum \<Rightarrow> jsnum \<Rightarrow> jsnum" where
  "computeEffectProgressDefault currentTime start_t end_t =
     computeEffectProgress currentTime start_t end_t (Num 0.25) (Num 0.25)"

subsection \<open>Transform synthesis\<close>

record transform =
  scale :: jsnum
  translateX :: jsnum
  translateY :: jsnum

definition calculateZoomTransform :: "jsnum \<Rightarrow> jsnum \<Rightarrow> jsnum \<Rightarrow> jsnum \<Rightarrow> transform" where
  "calculateZoomTransform progress cX cY targetScale =
     (let sc = js_add (Num 1) (js_mul (js_sub targetScale (Num 1)) progress)
      in \<lparr> scale = sc,
           translateX = js_mul (js_neg cX) (js_sub sc (Num 1)),
           translateY = js_mul (js_neg cY) (js_sub sc (Num 1)) \<rparr>)"

subsection \<open>Active effects and overlap resolution\<close>

text \<open>
  An effect carries its time window; the other fields of an effect object live in the
  extension of the record. The window is read from JSON, so both ends are reals.
\<close>

record effect =
  start :: real
  end' :: real

definition getActiveEffects :: "('a effect_scheme) list \<Rightarrow> jsnum \<Rightarrow> ('a effect_scheme) list" where
  "getActiveEffects effects currentTime =
     filter (\<lambda>e. js_ge currentTime (Num (start e)) \<and> js_le currentTime (Num (end' e))) effects"

text \<open>
  \<open>reduce\<close> without an initial value starts from the first element and folds the
  callback over the rest, from left to right.
\<close>

fun resolveZoomEffect :: "('a effect_scheme) list \<Rightarrow> ('a effect_scheme) option" where
  "resolveZoomEffect [] = None"
| "resolveZoomEffect (e0 # es) =
     Some (foldl (\<lambda>latest e. if start e > start latest then e else latest) e0 es)"

subsection \<open>The preview component: normalisation on load and the render step\<close>

text \<open>
  A display effect of the instruction file: the time window, \<open>target.bounds\<close> (which may
  be absent), \<open>style.zoom.enabled\<close> and \<open>style.zoom.scale\<close>. The preview keeps, for
  each effect that has bounds and an enabled zoom, the effect together with its
  normalised bounds.
\<close>

record displayEffect = effect +
  target_bounds :: "bounds option"
  zoom_enabled :: bool
  zoom_scale :: real

record normalizedEffect = displayEffect +
  normalizedBounds :: normalizedBounds

definition normalizeEffects ::
  "displayEffect list \<Rightarrow> jsnum \<Rightarrow> jsnum \<Rightarrow> normalizedEffect list" where
  "normalizeEffects displayEffects recordingWidth recordingHeight =
     List.map_filter
       (\<lambda>e. case target_bounds e of
               None \<Rightarrow> None
             | Some b \<Rightarrow>
                 if zoom_enabled e then
                   Some (displayEffect.extend e
                     \<lparr> normalizedBounds =
                         normalizeCoordinates b recordingWidth recordingHeight
                           recordingWidth recordingHeight \<rparr>)
                 else None)
       displayEffects"

text \<open>
  The identity transform, which the render step writes as
  \<open>translate(0px, 0px) scale(1)\<close>.
\<close>

definition identityTransform :: transform where
  "identityTransform = \<lparr> scale = Num 1, translateX = Num 0, translateY = Num 0 \<rparr>"

text \<open>
  One run of \<open>renderFrame\<close>. The state it writes is the transform of the video layer,
  modelled by the three numbers the CSS string is built from; \<open>prev\<close> is the transform
  before the frame, which stays when nothing is written. The video layer is taken to be
  mounted (\<open>videoLayerRef.current\<close> is set), as it is while the video plays.
\<close>

definition renderFrame :: "transform \<Rightarrow> normalizedEffect list \<Rightarrow> jsnum \<Rightarrow> transform" where
  "renderFrame prev normalizedEffects currentTime =
     (let activeEffects = getActiveEffects normalizedEffects currentTime
      in if length activeEffects > 0 then
           (case resolveZoomEffect activeEffects of
              None \<Rightarrow> prev
            | Some e \<Rightarrow>
                (let nb = normalizedBounds e;
                     targetScale =
                       (if js_truthy (autoScale nb) then autoScale nb else Num (zoom_scale e));
                     progress =
                       computeEffectProgress currentTime (Num (start e)) (Num (end' e))
                         (Num 0.25) (Num 0.25)
                 in calculateZoomTransform progress (centerX nb) (centerY nb) targetScale))
         else identityTransform)"

section \<open>The instruction generator\<close>

text \<open>
  The preview component imports \<open>generateZoomInstructions\<close> and
  \<open>checkInstructionPurity\<close> from \<open>utils/instructionGenerator\<close>, and \<open>handleExport\<close>
  calls them with the display effects and the frame size
  \<open>{width: recordingWidth, height: recordingHeight}\<close>. An instruction is an object whose
  set of keys is what the purity check inspects, so objects are lists of key-value pairs.
  The result of the check has the fields \<open>clean\<close> and \<open>violations\<close> that \<open>handleExport\<close>
  reads.
\<close>

datatype json = JNumber real | JString string | JObject "(string \<times> json) list"

type_synonym instruction = "(string \<times> json) list"

record frame =
  width :: real
  height :: real

record purity =
  clean :: bool
  violations :: "string list"

text \<open>
  Modelled from the spec: the instruction that \<open>generateZoomInstructions\<close> (called
  \<open>generate\<close> there; its source file is not part of the sources at hand) emits for one
  effect: exactly \<open>effect\<close>, \<open>startTimeMs = start*1000\<close>, \<open>durationMs = (end-start)*1000\<close>,
  \<open>frame\<close> and \<open>boundingBox\<close>, the box being the original one.
\<close>

definition zoomInstruction :: "displayEffect \<Rightarrow> bounds \<Rightarrow> frame \<Rightarrow> instruction" where
  "zoomInstruction e b fr =
     [(''effect'', JString ''zoom''),
      (''startTimeMs'', JNumber (start e * 1000)),
      (''durationMs'', JNumber ((end' e - start e) * 1000)),
      (''frame'', JObject [(''width'', JNumber (frame.width fr)),
                           (''height'', JNumber (frame.height fr))]),
      (''boundingBox'', JObject [(''x'', JNumber (x b)), (''y'', JNumber (y b)),
                                 (''width'', JNumber (bounds.width b)),
                                 (''height'', JNumber (bounds.height b))])]"

text \<open>
  Modelled from the spec: \<open>generateZoomInstructions\<close> filters to the effects with a
  bounding box and zoom enabled and emits one instruction per such effect, in order.
\<close>

definition generateZoomInstructions :: "displayEffect list \<Rightarrow> frame \<Rightarrow> instruction list" where
  "generateZoomInstructions displayEffects fr =
     List.map_filter
       (\<lambda>e. case target_bounds e of
               None \<Rightarrow> None
             | Some b \<Rightarrow> if zoom_enabled e then Some (zoomInstruction e b fr) else None)
       displayEffects"

text \<open>
  Modelled from the spec: the fixed set of keys that \<open>checkInstructionPurity\<close> allows in
  an instruction.
\<close>

definition allowedKeys :: "string list" where
  "allowedKeys = [''effect'', ''startTimeMs'', ''durationMs'', ''frame'', ''boundingBox'']"

text \<open>
  Modelled from the spec: the keys allowed inside the nested \<open>frame\<close> and \<open>boundingBox\<close>
  objects, which are the fields of a frame and of a bounding box in the data model.
\<close>

definition allowedNestedKeys :: "string \<Rightarrow> string list" where
  "allowedNestedKeys k =
     (if k = ''frame'' then [''width'', ''height'']
      else if k = ''boundingBox'' then [''x'', ''y'', ''width'', ''height'']
      else [])"

text \<open>
  Modelled from the spec: the violations inside one entry of an instruction, the keys of
  a nested \<open>frame\<close> or \<open>boundingBox\<close> object that are not allowed there.
\<close>

definition nestedViolations :: "string \<times> json \<Rightarrow> string list" where
  "nestedViolations kv =
     (case snd kv of
        JObject kvs \<Rightarrow>
          (if fst kv = ''frame'' \<or> fst kv = ''boundingBox'' then
             map (\<lambda>n. fst kv @ ''.'' @ n)
               (filter (\<lambda>n. n \<notin> set (allowedNestedKeys (fst kv))) (map fst kvs))
           else [])
      | _ \<Rightarrow> [])"

text \<open>
  Modelled from the spec: the body of \<open>checkInstructionPurity\<close> (called \<open>checkPurity\<close>
  there; its source file is not part of the sources at hand). A violation is a key
  outside the allowed set, or a key of a nested \<open>frame\<close> or \<open>boundingBox\<close> object outside
  the keys allowed there; the instruction is clean when there is no violation.
\<close>

definition checkInstructionPurity :: "instruction \<Rightarrow> purity" where
  "checkInstructionPurity ins =
     (let vs = filter (\<lambda>k. k \<notin> set allowedKeys) (map fst ins)
               @ concat (map nestedViolations ins)
      in \<lparr> clean = (vs = []), violations = vs \<rparr>)"

text \<open>The box of scenario A of the specification, in a frame of 1920 by 1080.\<close>

definition scenarioA :: bounds where
  "scenarioA = \<lparr> x = 640, y = 320, width = 240, height = 48 \<rparr>"

text \<open>
  The auto-scale contract in the words of the specification, on reals: the four
  piecewise-linear tiers, clamped to \<open>[1.0, 2.5]\<close>. It is compared with \<open>autoScaleOf\<close>
  below.
\<close>

definition autoScaleSpec :: "real \<Rightarrow> real" where
  "autoScaleSpec r =
     max 1.0 (min 2.5
       (if r < 0.01 then 1.5 + (0.01 - r) / 0.01 * 0.5
        else if r < 0.1 then 1.2 + (0.1 - r) / 0.09 * 0.3
        else if r < 0.5 then 1.0 + (0.5 - r) / 0.4 * 0.2
        else 1.0))"

text \<open>
  Example data: effect windows, a display effect of zero duration, the display effect of
  the instruction shown in the README, a frame.
\<close>

definition e15 :: effect where "e15 = \<lparr> start = 1, end' = 5 \<rparr>"

definition e36 :: effect where "e36 = \<lparr> start = 3, end' = 6 \<rparr>"

definition e29 :: effect where "e29 = \<lparr> start = 2, end' = 9 \<rparr>"

definition e39 :: effect where "e39 = \<lparr> start = 3, end' = 9 \<rparr>"

definition zeroDurationEffect :: displayEffect where
  "zeroDurationEffect =
     \<lparr> start = 0, end' = 0, target_bounds = Some scenarioA,
       zoom_enabled = True, zoom_scale = 1.5 \<rparr>"

definition exampleEffect :: displayEffect where
  "exampleEffect =
     \<lparr> start = 16.22, end' = 17.88, target_bounds = Some scenarioA,
       zoom_enabled = True, zoom_scale = 1.08 \<rparr>"

definition exampleFrame :: frame where
  "exampleFrame = \<lparr> width = 1920, height = 1080 \<rparr>"

section \<open>Arithmetic on finite numbers\<close>

lemma js_sub_Num [simp]: "js_sub (Num a) (Num b) = Num (a - b)"
  by (simp add: js_sub_def)

lemma js_pow_Num [simp]: "js_pow (Num a) n = Num (a ^ n)"
  by (induction n) simp_all

lemma js_ge_Num [simp]: "js_ge (Num a) (Num b) = (b \<le> a)"
  by (simp add: js_ge_def)

lemma js_gt_Num [simp]: "js_gt (Num a) (Num b) = (b < a)"
  by (simp add: js_gt_def)

lemma js_max_Num [simp]: "js_max (Num a) (Num b) = Num (max a b)"
  by (simp add: max_def)

lemma js_min_Num [simp]: "js_min (Num a) (Num b) = Num (min a b)"
  by (simp add: min_def)

lemma js_lt_NaN_right [simp]: "js_lt a NaN = False"
  by (cases a) simp_all

section \<open>Transform synthesis\<close>

text \<open>
  C7. For every progress \<open>p\<close>, centre \<open>(cx, cy)\<close> and target scale \<open>s\<close> (finite numbers),
  the transform has \<open>scale = 1 + (s-1)*p\<close>, \<open>translateX = -cx*(scale-1)\<close> and
  \<open>translateY = -cy*(scale-1)\<close>. The anchor point is fixed: \<open>cx*scale + translateX = cx\<close>
  and \<open>cy*scale + translateY = cy\<close>. At \<open>p = 0\<close> the transform is the identity.
\<close>

theorem calculateZoomTransform_anchor_fixed:
  "calculateZoomTransform (Num p) (Num cx) (Num cy) (Num s) =
     \<lparr> scale = Num (1 + (s - 1) * p),
       translateX = Num (- cx * ((1 + (s - 1) * p) - 1)),
       translateY = Num (- cy * ((1 + (s - 1) * p) - 1)) \<rparr>
   \<and> js_add (js_mul (Num cx) (scale (calculateZoomTransform (Num p) (Num cx) (Num cy) (Num s))))
        (translateX (calculateZoomTransform (Num p) (Num cx) (Num cy) (Num s))) = Num cx
   \<and> js_add (js_mul (Num cy) (scale (calculateZoomTransform (Num p) (Num cx) (Num cy) (Num s))))
        (translateY (calculateZoomTransform (Num p) (Num cx) (Num cy) (Num s))) = Num cy
   \<and> calculateZoomTransform (Num 0) (Num cx) (Num cy) (Num s) = identityTransform"
  by (simp add: calculateZoomTransform_def identityTransform_def Let_def algebra_simps)

section \<open>Coordinate normalisation\<close>

text \<open>
  C10. The result of \<open>normalizeCoordinates\<close> does not depend on \<open>videoWidth\<close> and
  \<open>videoHeight\<close>: for every bounds and recording size, any two pairs of video
  dimensions give the same result.
\<close>

theorem normalizeCoordinates_ignores_video_size:
  "normalizeCoordinates b rw rh vw1 vh1 = normalizeCoordinates b rw rh vw2 vh2"
  by (simp add: normalizeCoordinates_def)

text \<open>
  C8. Scenario A: for the box \<open>{x:640, y:320, width:240, height:48}\<close> in a frame of
  1920 by 1080, \<open>widthRatio\<close>, \<open>dominantRatio\<close> and \<open>effectiveRatio\<close> are \<open>0.125\<close>,
  \<open>areaRatio\<close> is \<open>11520/2073600\<close> (about \<open>0.00556\<close>) and \<open>heightRatio\<close> is \<open>48/1080\<close>
  (about \<open>0.0444\<close>); the effective ratio lies in the tier \<open>[0.1, 0.5)\<close> and
  \<open>autoScale = 1.0 + (0.5-0.125)/0.4*0.2 = 1.1875\<close>.
\<close>

theorem normalizeCoordinates_scenarioA:
  "widthRatio (normalizeCoordinates scenarioA (Num 1920) (Num 1080) vw vh) = Num 0.125
   \<and> dominantRatio (normalizeCoordinates scenarioA (Num 1920) (Num 1080) vw vh) = Num 0.125
   \<and> effectiveRatio (normalizeCoordinates scenarioA (Num 1920) (Num 1080) vw vh) = Num 0.125
   \<and> areaRatio (normalizeCoordinates scenarioA (Num 1920) (Num 1080) vw vh)
        = Num (11520 / 2073600)
   \<and> \<bar>11520 / 2073600 - 0.00556\<bar> < (0.00001 :: real)
   \<and> heightRatio (normalizeCoordinates scenarioA (Num 1920) (Num 1080) vw vh)
        = Num (48 / 1080)
   \<and> \<bar>48 / 1080 - 0.0444\<bar> < (0.0001 :: real)
   \<and> \<not> js_lt (Num 0.125) (Num 0.1) \<and> js_lt (Num 0.125) (Num 0.5)
   \<and> autoScale (normalizeCoordinates scenarioA (Num 1920) (Num 1080) vw vh)
        = Num (1.0 + (0.5 - 0.125) / 0.4 * 0.2)
   \<and> autoScale (normalizeCoordinates scenarioA (Num 1920) (Num 1080) vw vh) = Num 1.1875"
  by (simp add: normalizeCoordinates_def scenarioA_def Let_def bounds.extend_def
      autoScaleOf_def)

text \<open>
  C6. For every bounding box inside the frame (\<open>x \<ge> 0\<close>, \<open>y \<ge> 0\<close>, \<open>width > 0\<close>,
  \<open>height > 0\<close>, \<open>x + width \<le> frameWidth\<close>, \<open>y + height \<le> frameHeight\<close>), the anchor
  is \<open>anchorX = (x + width/2)/frameWidth\<close>, \<open>anchorY = (y + height/2)/frameHeight\<close>, and
  both lie in \<open>[0, 1]\<close>. The frame dimensions are positive as a consequence.
\<close>

theorem normalizeCoordinates_anchor_unit:
  assumes "0 \<le> x b" and "0 \<le> y b" and "0 < bounds.width b" and "0 < bounds.height b"
    and "x b + bounds.width b \<le> fw" and "y b + bounds.height b \<le> fh"
  shows "anchorX (normalizeCoordinates b (Num fw) (Num fh) vw vh)
           = Num ((x b + bounds.width b / 2) / fw)
       \<and> anchorY (normalizeCoordinates b (Num fw) (Num fh) vw vh)
           = Num ((y b + bounds.height b / 2) / fh)
       \<and> js_le (Num 0) (anchorX (normalizeCoordinates b (Num fw) (Num fh) vw vh))
       \<and> js_le (anchorX (normalizeCoordinates b (Num fw) (Num fh) vw vh)) (Num 1)
       \<and> js_le (Num 0) (anchorY (normalizeCoordinates b (Num fw) (Num fh) vw vh))
       \<and> js_le (anchorY (normalizeCoordinates b (Num fw) (Num fh) vw vh)) (Num 1)"
proof -
  from assms have fw: "0 < fw" and fh: "0 < fh" by linarith+
  have ax: "anchorX (normalizeCoordinates b (Num fw) (Num fh) vw vh)
           = Num ((x b + bounds.width b / 2) / fw)"
    using fw by (simp add: normalizeCoordinates_def Let_def bounds.extend_def)
  have ay: "anchorY (normalizeCoordinates b (Num fw) (Num fh) vw vh)
           = Num ((y b + bounds.height b / 2) / fh)"
    using fh by (simp add: normalizeCoordinates_def Let_def bounds.extend_def)
  have x0: "0 \<le> (x b + bounds.width b / 2) / fw" using assms fw by simp
  have x1: "(x b + bounds.width b / 2) / fw \<le> 1" using assms fw by simp
  have y0: "0 \<le> (y b + bounds.height b / 2) / fh" using assms fh by simp
  have y1: "(y b + bounds.height b / 2) / fh \<le> 1" using assms fh by simp
  show ?thesis unfolding ax ay using x0 x1 y0 y1 by simp
qed

theorem normalizeCoordinates_anchor_unit_witness:
  "0 \<le> x scenarioA \<and> 0 \<le> y scenarioA
   \<and> 0 < bounds.width scenarioA \<and> 0 < bounds.height scenarioA
   \<and> x scenarioA + bounds.width scenarioA \<le> 1920
   \<and> y scenarioA + bounds.height scenarioA \<le> 1080
   \<and> anchorX (normalizeCoordinates scenarioA (Num 1920) (Num 1080) (Num 1280) (Num 720))
        = Num (760 / 1920)
   \<and> anchorY (normalizeCoordinates scenarioA (Num 1920) (Num 1080) (Num 1280) (Num 720))
        = Num (344 / 1080)
   \<and> js_le (Num 0)
        (anchorX (normalizeCoordinates scenarioA (Num 1920) (Num 1080) (Num 1280) (Num 720)))
   \<and> js_le
        (anchorX (normalizeCoordinates scenarioA (Num 1920) (Num 1080) (Num 1280) (Num 720)))
        (Num 1)
   \<and> js_le (Num 0)
        (anchorY (normalizeCoordinates scenarioA (Num 1920) (Num 1080) (Num 1280) (Num 720)))
   \<and> js_le
        (anchorY (normalizeCoordinates scenarioA (Num 1920) (Num 1080) (Num 1280) (Num 720)))
        (Num 1)"
  using normalizeCoordinates_anchor_unit [of scenarioA 1920 1080 "Num 1280" "Num 720"]
  by (simp add: scenarioA_def)

section \<open>The auto-scale heuristic\<close>

lemma autoScaleOf_Num: "autoScaleOf (Num r) = Num (autoScaleSpec r)"
  by (simp add: autoScaleOf_def autoScaleSpec_def Let_def)

lemma autoScaleSpec_antimono:
  assumes "r1 \<le> r2"
  shows "autoScaleSpec r2 \<le> autoScaleSpec r1"
proof -
  have "(if r2 < 0.01 then 1.5 + (0.01 - r2) / 0.01 * 0.5
        else if r2 < 0.1 then 1.2 + (0.1 - r2) / 0.09 * 0.3
        else if r2 < 0.5 then 1.0 + (0.5 - r2) / 0.4 * 0.2
        else 1.0) \<le> (if r1 < 0.01 then 1.5 + (0.01 - r1) / 0.01 * 0.5
        else if r1 < 0.1 then 1.2 + (0.1 - r1) / 0.09 * 0.3
        else if r1 < 0.5 then 1.0 + (0.5 - r1) / 0.4 * 0.2
        else 1.0)"
    using assms by (auto simp: field_simps)
  then show ?thesis
    unfolding autoScaleSpec_def by (intro max.mono min.mono order_refl)
qed

lemma autoScaleSpec_range: "1 \<le> autoScaleSpec r \<and> autoScaleSpec r \<le> 2.5"
  by (simp add: autoScaleSpec_def)

text \<open>
  C3. The auto-scale is monotonically non-increasing in the effective ratio: for
  \<open>0 < r1 \<le> r2\<close>, \<open>autoScale(r1) \<ge> autoScale(r2)\<close>. For an effective ratio in \<open>(0, 1]\<close>
  it is the value of the four tiers clamped to \<open>[1.0, 2.5]\<close>, and lies in \<open>[1.0, 2.5]\<close>.
  The \<open>autoScale\<close> field of \<open>normalizeCoordinates\<close> is this function of its
  \<open>effectiveRatio\<close> field.
\<close>

theorem autoScale_monotone_bounded:
  "(0 < r1 \<and> r1 \<le> r2 \<longrightarrow> js_ge (autoScaleOf (Num r1)) (autoScaleOf (Num r2)))
   \<and> (0 < r \<and> r \<le> 1 \<longrightarrow>
        autoScaleOf (Num r) = Num (autoScaleSpec r)
        \<and> js_le (Num 1.0) (autoScaleOf (Num r)) \<and> js_le (autoScaleOf (Num r)) (Num 2.5))
   \<and> autoScale (normalizeCoordinates b rw rh vw vh)
        = autoScaleOf (effectiveRatio (normalizeCoordinates b rw rh vw vh))"
proof -
  have "autoScale (normalizeCoordinates b rw rh vw vh)
        = autoScaleOf (effectiveRatio (normalizeCoordinates b rw rh vw vh))"
    by (simp add: normalizeCoordinates_def Let_def bounds.extend_def)
  then show ?thesis
    using autoScaleSpec_antimono [of r1 r2] autoScaleSpec_range [of r]
    by (simp add: autoScaleOf_Num)
qed

theorem autoScale_monotone_bounded_witness:
  "(0 :: real) < 0.005 \<and> (0.005 :: real) \<le> 0.2
   \<and> js_ge (autoScaleOf (Num 0.005)) (autoScaleOf (Num 0.2))
   \<and> (0 :: real) < 0.05 \<and> (0.05 :: real) \<le> 1
   \<and> autoScaleOf (Num 0.05) = Num (autoScaleSpec 0.05)
   \<and> js_le (Num 1.0) (autoScaleOf (Num 0.05)) \<and> js_le (autoScaleOf (Num 0.05)) (Num 2.5)"
  using autoScale_monotone_bounded
    [of "0.005" "0.2" "0.05" scenarioA "Num 1920" "Num 1080" "Num 1920" "Num 1080"]
  by (simp add: autoScaleOf_Num autoScaleSpec_def)

section \<open>Progress timing\<close>

lemma easeInOutCubic_Num:
  "easeInOutCubic (Num a) = Num (if a < 0.5 then 4 * a ^ 3 else 1 - (- 2 * a + 2) ^ 3 / 2)"
  by (simp add: easeInOutCubic_def power3_eq_cube)

lemma cubic_range:
  fixes a :: real
  assumes "0 \<le> a" and "a \<le> 1"
  shows "0 \<le> (if a < 0.5 then 4 * a ^ 3 else 1 - (- 2 * a + 2) ^ 3 / 2)
       \<and> (if a < 0.5 then 4 * a ^ 3 else 1 - (- 2 * a + 2) ^ 3 / 2) \<le> 1"
proof (cases "a < 0.5")
  case True
  have "a ^ 3 \<le> (1 / 2) ^ 3" using assms True by (intro power_mono) simp_all
  then have "4 * a ^ 3 \<le> 1" by (simp add: power3_eq_cube)
  moreover have "0 \<le> 4 * a ^ 3" using assms by simp
  ultimately show ?thesis using True by simp
next
  case False
  define z where "z = - 2 * a + 2"
  have z: "0 \<le> z" "z \<le> 1" using assms False by (simp_all add: z_def)
  have "0 \<le> z ^ 3" using z by simp
  moreover have "z ^ 3 \<le> 1" using z by (simp add: power_le_one)
  ultimately show ?thesis using False by (simp add: z_def)
qed

text \<open>
  With a duration other than zero the quotient is finite and the branches are those on
  reals.
\<close>

lemma computeEffectProgressDefault_Num:
  assumes "s \<noteq> e"
  shows "computeEffectProgressDefault (Num t) (Num s) (Num e) =
     (if (t - s) / (e - s) \<le> 0 then Num 0
      else if 1 \<le> (t - s) / (e - s) then Num 0
      else if (t - s) / (e - s) < 0.25 then easeInOutCubic (Num ((t - s) / (e - s) / 0.25))
      else if 0.75 < (t - s) / (e - s) then
        easeInOutCubic (Num ((1 - (t - s) / (e - s)) / 0.25))
      else Num 1)"
proof -
  have "e - s \<noteq> 0" using assms by simp
  moreover have "(1 - 0.25 :: real) = 0.75" by simp
  ultimately show ?thesis
    by (simp add: computeEffectProgressDefault_def computeEffectProgress_def Let_def)
qed

text \<open>
  With a duration of zero the quotient is \<open>NaN\<close> at \<open>t = start\<close>, where every comparison
  is false and the hold value is returned, and an infinity elsewhere.
\<close>

lemma computeEffectProgress_zero_duration:
  "computeEffectProgress (Num t) (Num s) (Num s) easeIn easeOut
     = (if t = s then Num 1 else Num 0)"
  by (simp add: computeEffectProgress_def Let_def js_ge_def js_gt_def)

lemma computeEffectProgressDefault_range:
  "\<exists>p. computeEffectProgressDefault (Num t) (Num s) (Num e) = Num p \<and> 0 \<le> p \<and> p \<le> 1"
proof (cases "s = e")
  case True
  then show ?thesis
    by (simp add: computeEffectProgressDefault_def computeEffectProgress_zero_duration)
next
  case False
  define u where "u = (t - s) / (e - s)"
  note P = computeEffectProgressDefault_Num [OF False, of t, folded u_def]
  consider "u \<le> 0 \<or> 1 \<le> u" | "0 < u \<and> u < 0.25" | "0.75 < u \<and> u < 1"
    | "0.25 \<le> u \<and> u \<le> 0.75" by linarith
  then show ?thesis
  proof cases
    case 1 then show ?thesis unfolding P by auto
  next
    case 2
    then have "0 \<le> u / 0.25" "u / 0.25 \<le> 1" by simp_all
    from cubic_range [OF this] 2 show ?thesis
      unfolding P by (simp only: easeInOutCubic_Num) auto
  next
    case 3
    then have "0 \<le> (1 - u) / 0.25" "(1 - u) / 0.25 \<le> 1" by simp_all
    from cubic_range [OF this] 3 show ?thesis
      unfolding P by (simp only: easeInOutCubic_Num) auto
  next
    case 4 then show ?thesis unfolding P by auto
  qed
qed

text \<open>
  C5. For an effect window with \<open>end > start\<close> and the default ease fractions \<open>0.25\<close>,
  with \<open>u = (t-start)/(end-start)\<close>: the progress is \<open>0\<close> when \<open>u \<le> 0\<close> or \<open>u \<ge> 1\<close>, it is
  \<open>easeInOutCubic(u/0.25)\<close> for \<open>0 < u < 0.25\<close>, \<open>easeInOutCubic((1-u)/0.25)\<close> for
  \<open>0.75 < u < 1\<close>, and \<open>1\<close> otherwise, where \<open>easeInOutCubic(a)\<close> is \<open>4a^3\<close> for
  \<open>a < 0.5\<close> and \<open>1-(-2a+2)^3/2\<close> otherwise. The progress is \<open>0\<close> at \<open>t = start\<close> and at
  \<open>t = end\<close>, it always lies in \<open>[0, 1]\<close>, and both ease pieces take the hold value \<open>1\<close>
  at their boundary with the hold phase (\<open>u = 0.25\<close> and \<open>u = 0.75\<close>).
\<close>

theorem computeEffectProgress_piecewise:
  assumes "s < e" and "u = (t - s) / (e - s)"
  shows "(u \<le> 0 \<or> 1 \<le> u \<longrightarrow> computeEffectProgressDefault (Num t) (Num s) (Num e) = Num 0)
   \<and> (0 < u \<and> u < 0.25 \<longrightarrow>
        computeEffectProgressDefault (Num t) (Num s) (Num e) = easeInOutCubic (Num (u / 0.25)))
   \<and> (0.75 < u \<and> u < 1 \<longrightarrow>
        computeEffectProgressDefault (Num t) (Num s) (Num e)
          = easeInOutCubic (Num ((1 - u) / 0.25)))
   \<and> (0.25 \<le> u \<and> u \<le> 0.75 \<longrightarrow>
        computeEffectProgressDefault (Num t) (Num s) (Num e) = Num 1)
   \<and> easeInOutCubic (Num a) = Num (if a < 0.5 then 4 * a ^ 3 else 1 - (- 2 * a + 2) ^ 3 / 2)
   \<and> computeEffectProgressDefault (Num s) (Num s) (Num e) = Num 0
   \<and> computeEffectProgressDefault (Num e) (Num s) (Num e) = Num 0
   \<and> js_le (Num 0) (computeEffectProgressDefault (Num t) (Num s) (Num e))
   \<and> js_le (computeEffectProgressDefault (Num t) (Num s) (Num e)) (Num 1)
   \<and> easeInOutCubic (Num (0.25 / 0.25)) = Num 1
   \<and> easeInOutCubic (Num ((1 - 0.75) / 0.25)) = Num 1"
proof -
  from assms(1) have ne: "s \<noteq> e" by simp
  note P = computeEffectProgressDefault_Num [OF ne, of t, folded assms(2)]
  have c1: "u \<le> 0 \<or> 1 \<le> u \<longrightarrow> computeEffectProgressDefault (Num t) (Num s) (Num e) = Num 0"
    unfolding P by auto
  have c2: "0 < u \<and> u < 0.25 \<longrightarrow>
        computeEffectProgressDefault (Num t) (Num s) (Num e) = easeInOutCubic (Num (u / 0.25))"
    unfolding P by auto
  have c3: "0.75 < u \<and> u < 1 \<longrightarrow>
        computeEffectProgressDefault (Num t) (Num s) (Num e)
          = easeInOutCubic (Num ((1 - u) / 0.25))"
    unfolding P by auto
  have c4: "0.25 \<le> u \<and> u \<le> 0.75 \<longrightarrow>
        computeEffectProgressDefault (Num t) (Num s) (Num e) = Num 1"
    unfolding P by auto
  have c5: "computeEffectProgressDefault (Num s) (Num s) (Num e) = Num 0"
    using computeEffectProgressDefault_Num [OF ne, of s] by simp
  have c6: "computeEffectProgressDefault (Num e) (Num s) (Num e) = Num 0"
    using computeEffectProgressDefault_Num [OF ne, of e] assms(1) by simp
  have rng: "js_le (Num 0) (computeEffectProgressDefault (Num t) (Num s) (Num e))
      \<and> js_le (computeEffectProgressDefault (Num t) (Num s) (Num e)) (Num 1)"
    using computeEffectProgressDefault_range [of t s e] by auto
  have b: "easeInOutCubic (Num (0.25 / 0.25)) = Num 1"
    "easeInOutCubic (Num ((1 - 0.75) / 0.25)) = Num 1"
    by (simp_all add: easeInOutCubic_Num)
  show ?thesis using c1 c2 c3 c4 c5 c6 rng b easeInOutCubic_Num [of a] by blast
qed

theorem computeEffectProgress_piecewise_witness:
  "(10 :: real) < 20 \<and> (0.1 :: real) = (11 - 10) / (20 - 10)
   \<and> computeEffectProgressDefault (Num 11) (Num 10) (Num 20) = easeInOutCubic (Num 0.4)
   \<and> easeInOutCubic (Num 0.4) = Num 0.256
   \<and> computeEffectProgressDefault (Num 10) (Num 10) (Num 20) = Num 0
   \<and> computeEffectProgressDefault (Num 20) (Num 10) (Num 20) = Num 0
   \<and> js_le (Num 0) (computeEffectProgressDefault (Num 11) (Num 10) (Num 20))
   \<and> js_le (computeEffectProgressDefault (Num 11) (Num 10) (Num 20)) (Num 1)"
proof -
  have h: "(10 :: real) < 20" "(0.1 :: real) = (11 - 10) / (20 - 10)" by simp_all
  have v: "(0.1 :: real) / 0.25 = 0.4" "(0 :: real) < 0.1 \<and> (0.1 :: real) < 0.25"
    "(if (0.4 :: real) < 0.5 then 4 * 0.4 ^ 3 else 1 - (- 2 * 0.4 + 2) ^ 3 / 2) = (0.256 :: real)"
    by (simp_all add: power3_eq_cube)
  note T = computeEffectProgress_piecewise [OF h, of "0.4"]
  have p: "computeEffectProgressDefault (Num 11) (Num 10) (Num 20) = easeInOutCubic (Num 0.4)"
    using T v(1,2) by simp
  have c: "easeInOutCubic (Num 0.4) = Num 0.256"
    using T v(3) by simp
  show ?thesis using h p c T by simp
qed

section \<open>Non-positive durations\<close>

lemma getActiveEffects_drops_negative:
  "getActiveEffects effs (Num t)
     = getActiveEffects (filter (\<lambda>e. start e \<le> end' e) effs) (Num t)"
  unfolding getActiveEffects_def filter_filter
  by (rule filter_cong) auto

lemma normalizeEffects_zeroDuration:
  "normalizeEffects [zeroDurationEffect] (Num 1920) (Num 1080) =
     [displayEffect.extend zeroDurationEffect
        \<lparr> normalizedBounds =
            normalizeCoordinates scenarioA (Num 1920) (Num 1080) (Num 1920) (Num 1080) \<rparr>]"
  by (simp add: normalizeEffects_def zeroDurationEffect_def)

text \<open>
  C2, as stated, fails. The claim is that for every window with \<open>end \<le> start\<close> the
  progress computation detects an error and the effect is skipped for the frame. The
  window \<open>start = end = 0\<close> at \<open>t = 0\<close> is active; the quotient \<open>0/0\<close> is \<open>NaN\<close>, no
  comparison holds, the progress is \<open>1\<close>, and the render step applies the full zoom of
  the effect instead of the identity transform.
\<close>

theorem zero_duration_not_skipped:
  "end' zeroDurationEffect \<le> start zeroDurationEffect
   \<and> computeEffectProgress (Num 0) (Num (start zeroDurationEffect))
        (Num (end' zeroDurationEffect)) (Num 0.25) (Num 0.25) = Num 1
   \<and> renderFrame identityTransform
        (normalizeEffects [zeroDurationEffect] (Num 1920) (Num 1080)) (Num 0)
      = \<lparr> scale = Num 1.1875, translateX = Num (- 142.5), translateY = Num (- 64.5) \<rparr>
   \<and> renderFrame identityTransform
        (normalizeEffects [zeroDurationEffect] (Num 1920) (Num 1080)) (Num 0)
      \<noteq> identityTransform"
proof -
  have t: "end' zeroDurationEffect \<le> start zeroDurationEffect"
    by (simp add: zeroDurationEffect_def)
  have p: "computeEffectProgress (Num 0) (Num (start zeroDurationEffect))
        (Num (end' zeroDurationEffect)) (Num 0.25) (Num 0.25) = Num 1"
    by (simp add: zeroDurationEffect_def computeEffectProgress_zero_duration)
  have r: "renderFrame identityTransform
        (normalizeEffects [zeroDurationEffect] (Num 1920) (Num 1080)) (Num 0)
      = \<lparr> scale = Num 1.1875, translateX = Num (- 142.5), translateY = Num (- 64.5) \<rparr>"
    unfolding normalizeEffects_zeroDuration
    by (simp add: renderFrame_def getActiveEffects_def Let_def displayEffect.extend_def
        zeroDurationEffect_def computeEffectProgress_zero_duration normalizeCoordinates_def
        scenarioA_def bounds.extend_def autoScaleOf_def calculateZoomTransform_def)
  show ?thesis using t p r by (simp add: identityTransform_def)
qed

text \<open>
  C2, amended. The progress computation has no duration check and reports no error: for
  every time and every window, also with \<open>end \<le> start\<close>, it returns a finite number in
  \<open>[0, 1]\<close>, so the render step goes on. An effect with \<open>end < start\<close> is skipped at every
  frame, because it is never among the active effects: the render step gives the same
  transform as on the list without such effects.
\<close>

theorem nonpositive_duration_no_error:
  "(\<exists>p. computeEffectProgress (Num t) (Num s) (Num e) (Num 0.25) (Num 0.25) = Num p
        \<and> 0 \<le> p \<and> p \<le> 1)
   \<and> getActiveEffects (filter (\<lambda>e. end' e < start e) effs) (Num t) = []
   \<and> renderFrame prev effs (Num t)
        = renderFrame prev (filter (\<lambda>e. start e \<le> end' e) effs) (Num t)"
proof -
  have a: "\<exists>p. computeEffectProgress (Num t) (Num s) (Num e) (Num 0.25) (Num 0.25) = Num p
        \<and> 0 \<le> p \<and> p \<le> 1"
    using computeEffectProgressDefault_range [of t s e]
    unfolding computeEffectProgressDefault_def .
  have b: "getActiveEffects (filter (\<lambda>e. end' e < start e) effs) (Num t) = []"
    by (auto simp: getActiveEffects_def filter_empty_conv)
  have c: "renderFrame prev effs (Num t)
        = renderFrame prev (filter (\<lambda>e. start e \<le> end' e) effs) (Num t)"
    unfolding renderFrame_def getActiveEffects_drops_negative [of effs t, symmetric] ..
  show ?thesis using a b c by blast
qed

section \<open>Active effects and overlap resolution\<close>

text \<open>
  The fold of \<open>resolveZoomEffect\<close> returns an element of the list that splits it: every
  effect before it starts strictly earlier, no effect after it starts later.
\<close>

lemma foldl_latest_split:
  fixes a :: "'a effect_scheme"
  defines "f \<equiv> (\<lambda>latest e :: 'a effect_scheme. if start e > start latest then e else latest)"
  shows "\<exists>pre post. a # es = pre @ foldl f a es # post
           \<and> (\<forall>e'\<in>set pre. start e' < start (foldl f a es))
           \<and> (\<forall>e'\<in>set post. start e' \<le> start (foldl f a es))"
proof (induction es rule: rev_induct)
  case Nil
  have "a # [] = [] @ foldl f a [] # []" by simp
  then show ?case by fastforce
next
  case (snoc z es)
  let ?r = "foldl f a es"
  from snoc obtain pre post where
    sp: "a # es = pre @ ?r # post"
    and lt: "\<forall>e'\<in>set pre. start e' < start ?r"
    and le: "\<forall>e'\<in>set post. start e' \<le> start ?r"
    by blast
  show ?case
  proof (cases "start z > start ?r")
    case True
    then have r: "foldl f a (es @ [z]) = z" by (simp add: f_def)
    have all: "\<forall>e'\<in>set (a # es). start e' < start z"
    proof
      fix e' assume "e' \<in> set (a # es)"
      then have "e' \<in> set pre \<or> e' = ?r \<or> e' \<in> set post" unfolding sp by auto
      then have "start e' \<le> start ?r" using lt le by fastforce
      then show "start e' < start z" using True by simp
    qed
    have "a # (es @ [z]) = (a # es) @ z # []" by simp
    with all show ?thesis unfolding r by (metis empty_iff list.set(1))
  next
    case False
    then have r: "foldl f a (es @ [z]) = ?r" by (simp add: f_def)
    have "a # (es @ [z]) = pre @ ?r # (post @ [z])" using sp by simp
    moreover have "\<forall>e'\<in>set (post @ [z]). start e' \<le> start ?r" using le False by auto
    ultimately show ?thesis unfolding r using lt by blast
  qed
qed

lemma resolveZoomEffect_split:
  assumes "es \<noteq> []"
  shows "\<exists>e pre post. resolveZoomEffect es = Some e \<and> es = pre @ e # post
           \<and> (\<forall>e'\<in>set pre. start e' < start e)
           \<and> (\<forall>e'\<in>set post. start e' \<le> start e)"
proof -
  from assms obtain a as where es: "es = a # as" by (cases es) auto
  show ?thesis unfolding es using foldl_latest_split [of a as] by simp
qed

text \<open>
  C9. For every non-empty list of active effects, \<open>resolveZoomEffect\<close> returns the first
  effect, in input order, among those whose start is the maximum start of the list: the
  list splits at the returned effect, its start is the maximum, every effect before it
  starts strictly earlier and no effect after it starts later. So a tie on the start is
  won by the effect that comes first.
\<close>

theorem resolveZoomEffect_first_latest:
  assumes "es \<noteq> []"
  shows "\<exists>e pre post. resolveZoomEffect es = Some e \<and> es = pre @ e # post
           \<and> start e = Max (start ` set es)
           \<and> (\<forall>e'\<in>set pre. start e' < Max (start ` set es))
           \<and> (\<forall>e'\<in>set post. start e' \<le> Max (start ` set es))"
proof -
  from resolveZoomEffect_split [OF assms] obtain e pre post where
    r: "resolveZoomEffect es = Some e" and sp: "es = pre @ e # post"
    and lt: "\<forall>e'\<in>set pre. start e' < start e"
    and le: "\<forall>e'\<in>set post. start e' \<le> start e"
    by blast
  have "Max (start ` set es) = start e"
  proof (rule Max_eqI)
    show "finite (start ` set es)" by simp
    show "start e \<in> start ` set es" unfolding sp by simp
    fix v assume "v \<in> start ` set es"
    then obtain e' where "e' \<in> set es" "v = start e'" by auto
    then show "v \<le> start e" using lt le unfolding sp by fastforce
  qed
  with r sp lt le show ?thesis by metis
qed

theorem resolveZoomEffect_first_latest_witness:
  "[e15, e36, e39] \<noteq> [] \<and> resolveZoomEffect [e15, e36, e39] = Some e36
   \<and> [e15, e36, e39] = [e15] @ e36 # [e39]
   \<and> start e36 = Max (start ` set [e15, e36, e39])
   \<and> start e39 = start e36"
  using resolveZoomEffect_first_latest [of "[e15, e36, e39]"]
  by (simp add: e15_def e36_def e39_def)

text \<open>
  C4. \<open>getActiveEffects\<close> keeps exactly the effects with \<open>start \<le> t \<le> end\<close>, both ends
  included. \<open>resolveZoomEffect\<close> of the empty list is none. On a non-empty list whose
  starts are pairwise distinct it returns an effect of the list, and every other effect
  of the list starts strictly earlier: the unique effect with the maximum start.
\<close>

theorem activeEffects_resolve_distinct:
  "getActiveEffects effects (Num t) = filter (\<lambda>e. start e \<le> t \<and> t \<le> end' e) effects
   \<and> resolveZoomEffect ([] :: 'a effect_scheme list) = None
   \<and> ((es :: 'a effect_scheme list) \<noteq> [] \<and> distinct (map start es) \<longrightarrow>
        (\<exists>e. resolveZoomEffect es = Some e \<and> e \<in> set es
           \<and> (\<forall>e'\<in>set es. e' \<noteq> e \<longrightarrow> start e' < start e)))"
proof -
  have a: "getActiveEffects effects (Num t) = filter (\<lambda>e. start e \<le> t \<and> t \<le> end' e) effects"
    by (simp add: getActiveEffects_def)
  have c: "\<exists>e. resolveZoomEffect es = Some e \<and> e \<in> set es
           \<and> (\<forall>e'\<in>set es. e' \<noteq> e \<longrightarrow> start e' < start e)"
    if ne: "es \<noteq> []" and d: "distinct (map start es)"
  proof -
    from resolveZoomEffect_split [OF ne] obtain e pre post where
      r: "resolveZoomEffect es = Some e" and sp: "es = pre @ e # post"
      and lt: "\<forall>e'\<in>set pre. start e' < start e"
      and le: "\<forall>e'\<in>set post. start e' \<le> start e"
      by blast
    have ne_post: "\<forall>e'\<in>set post. start e' \<noteq> start e"
    proof
      fix e' assume "e' \<in> set post"
      then have "start e' \<in> start ` set post" by (rule imageI)
      moreover have "start e \<notin> start ` set post" using d unfolding sp by simp
      ultimately show "start e' \<noteq> start e" by metis
    qed
    have "\<forall>e'\<in>set es. e' \<noteq> e \<longrightarrow> start e' < start e"
      using lt le ne_post unfolding sp by fastforce
    moreover have "e \<in> set es" unfolding sp by simp
    ultimately show ?thesis using r by blast
  qed
  show ?thesis using a c by simp
qed

theorem activeEffects_resolve_distinct_witness:
  "getActiveEffects [e15, e36, e29] (Num 5) = [e15, e36, e29]
   \<and> getActiveEffects [e15, e36, e29] (Num 6) = [e36, e29]
   \<and> [e36, e29] \<noteq> [] \<and> distinct (map start [e36, e29])
   \<and> resolveZoomEffect [e36, e29] = Some e36"
  using activeEffects_resolve_distinct [of "[e15, e36, e29]" 5 "[e36, e29]"]
    activeEffects_resolve_distinct [of "[e15, e36, e29]" 6 "[e36, e29]"]
  by (simp add: e15_def e36_def e29_def)

section \<open>Instruction purity\<close>

lemma checkInstructionPurity_zoomInstruction:
  "checkInstructionPurity (zoomInstruction e b fr) = \<lparr> clean = True, violations = [] \<rparr>"
  by (simp add: checkInstructionPurity_def zoomInstruction_def allowedKeys_def
      nestedViolations_def allowedNestedKeys_def)

lemma keys_zoomInstruction: "map fst (zoomInstruction e b fr) = allowedKeys"
  by (simp add: zoomInstruction_def allowedKeys_def)

text \<open>The check is not vacuous: a leaked preview field is reported by its name.\<close>

lemma checkInstructionPurity_rejects_scale:
  "checkInstructionPurity (zoomInstruction e b fr @ [(''scale'', JNumber 1.5)])
     = \<lparr> clean = False, violations = [''scale''] \<rparr>"
  by (simp add: checkInstructionPurity_def zoomInstruction_def allowedKeys_def
      nestedViolations_def allowedNestedKeys_def)

lemma generateZoomInstructions_set:
  "ins \<in> set (generateZoomInstructions effects fr) \<Longrightarrow>
     \<exists>e b. e \<in> set effects \<and> target_bounds e = Some b \<and> zoom_enabled e
       \<and> ins = zoomInstruction e b fr"
  unfolding generateZoomInstructions_def
  by (induction effects) (auto split: option.splits if_splits)

lemma generateZoomInstructions_length:
  "\<forall>e\<in>set effects. target_bounds e \<noteq> None \<and> zoom_enabled e \<Longrightarrow>
     length (generateZoomInstructions effects fr) = length effects"
  unfolding generateZoomInstructions_def
  by (induction effects) auto

text \<open>
  C1. Every instruction produced by \<open>generateZoomInstructions\<close> passes the purity check:
  \<open>clean\<close> is true, there is no violation, and the keys of the instruction are exactly
  \<open>effect\<close>, \<open>startTimeMs\<close>, \<open>durationMs\<close>, \<open>frame\<close>, \<open>boundingBox\<close> (so no scale, anchor,
  easing or ratio field). When every display effect has a bounding box and an enabled
  zoom, there is one instruction per effect.
\<close>

theorem generateZoomInstructions_pure:
  "(i < length (generateZoomInstructions effects fr) \<longrightarrow>
      clean (checkInstructionPurity (generateZoomInstructions effects fr ! i))
      \<and> violations (checkInstructionPurity (generateZoomInstructions effects fr ! i)) = []
      \<and> map fst (generateZoomInstructions effects fr ! i)
          = [''effect'', ''startTimeMs'', ''durationMs'', ''frame'', ''boundingBox''])
   \<and> ((\<forall>e\<in>set effects. target_bounds e \<noteq> None \<and> zoom_enabled e) \<longrightarrow>
        length (generateZoomInstructions effects fr) = length effects)"
proof -
  have "clean (checkInstructionPurity (generateZoomInstructions effects fr ! i))
      \<and> violations (checkInstructionPurity (generateZoomInstructions effects fr ! i)) = []
      \<and> map fst (generateZoomInstructions effects fr ! i)
          = [''effect'', ''startTimeMs'', ''durationMs'', ''frame'', ''boundingBox'']"
    if "i < length (generateZoomInstructions effects fr)"
  proof -
    from that have "generateZoomInstructions effects fr ! i
        \<in> set (generateZoomInstructions effects fr)" by simp
    from generateZoomInstructions_set [OF this] obtain e b where
      "generateZoomInstructions effects fr ! i = zoomInstruction e b fr" by blast
    then show ?thesis
      using checkInstructionPurity_zoomInstruction [of e b fr] keys_zoomInstruction [of e b fr]
      by (simp add: allowedKeys_def)
  qed
  then show ?thesis using generateZoomInstructions_length [of effects fr] by blast
qed

theorem generateZoomInstructions_pure_witness:
  "0 < length (generateZoomInstructions [exampleEffect] exampleFrame)
   \<and> generateZoomInstructions [exampleEffect] exampleFrame ! 0 =
        [(''effect'', JString ''zoom''),
         (''startTimeMs'', JNumber 16220),
         (''durationMs'', JNumber 1660),
         (''frame'', JObject [(''width'', JNumber 1920), (''height'', JNumber 1080)]),
         (''boundingBox'', JObject [(''x'', JNumber 640), (''y'', JNumber 320),
                                    (''width'', JNumber 240), (''height'', JNumber 48)])]
   \<and> clean (checkInstructionPurity (generateZoomInstructions [exampleEffect] exampleFrame ! 0))
   \<and> violations (checkInstructionPurity
        (generateZoomInstructions [exampleEffect] exampleFrame ! 0)) = []
   \<and> target_bounds exampleEffect \<noteq> None \<and> zoom_enabled exampleEffect
   \<and> length (generateZoomInstructions [exampleEffect] exampleFrame) = length [exampleEffect]"
proof -
  have g: "generateZoomInstructions [exampleEffect] exampleFrame =
        [[(''effect'', JString ''zoom''),
         (''startTimeMs'', JNumber 16220),
         (''durationMs'', JNumber 1660),
         (''frame'', JObject [(''width'', JNumber 1920), (''height'', JNumber 1080)]),
         (''boundingBox'', JObject [(''x'', JNumber 640), (''y'', JNumber 320),
                                    (''width'', JNumber 240), (''height'', JNumber 48)])]]"
    by (simp add: generateZoomInstructions_def zoomInstruction_def exampleEffect_def
        exampleFrame_def scenarioA_def)
  have h1: "0 < length (generateZoomInstructions [exampleEffect] exampleFrame)"
    by (simp add: g)
  have h2: "\<forall>e\<in>set [exampleEffect]. target_bounds e \<noteq> None \<and> zoom_enabled e"
    by (simp add: exampleEffect_def)
  note h = h1 h2
  from generateZoomInstructions_pure [of 0 "[exampleEffect]" exampleFrame] h
  have "clean (checkInstructionPurity (generateZoomInstructions [exampleEffect] exampleFrame ! 0))
    \<and> violations (checkInstructionPurity
        (generateZoomInstructions [exampleEffect] exampleFrame ! 0)) = []
    \<and> length (generateZoomInstructions [exampleEffect] exampleFrame) = length [exampleEffect]"
    by blast
  moreover have "generateZoomInstructions [exampleEffect] exampleFrame ! 0 =
        [(''effect'', JString ''zoom''),
         (''startTimeMs'', JNumber 16220),
         (''durationMs'', JNumber 1660),
         (''frame'', JObject [(''width'', JNumber 1920), (''height'', JNumber 1080)]),
         (''boundingBox'', JObject [(''x'', JNumber 640), (''y'', JNumber 320),
                                    (''width'', JNumber 240), (''height'', JNumber 48)])]"
    by (simp add: g)
  moreover have "target_bounds exampleEffect \<noteq> None \<and> zoom_enabled exampleEffect"
    by (simp add: exampleEffect_def)
  ultimately show ?thesis using h(1) by blast
qed

end
